theory Spec2Isabelle
  imports Complex_Main
begin

section \<open>Data model\<close>

text \<open>
  The node is the pair of an \<open>AIAlgoManager\<close> (ledger state, log, credential) and an
  \<open>AIAlgoEngine\<close> (the block-cycle loop). Python floats are idealised as reals: rounding is
  not modelled. Random draws (\<open>random.uniform\<close>, \<open>random.randint\<close>,
  \<open>random.getrandbits\<close>) are inputs of the functions that draw them.

  A log entry is the pair of a notification and its colour tag. Each notification stands for
  one \<open>log_message\<close> call site and carries the values the message interpolates; time stamps
  and the terminal widget are left out.
\<close>

datatype color = Teal | Red | Gold

text \<open>
  The notifications and the messages they stand for:
  \<^item> \<open>NodeInitialized\<close>: "Node ID: .. initialized."
  \<^item> \<open>ApiKeyEmpty\<close>: "ERROR: API Key field is empty."
  \<^item> \<open>ApiKeyLoaded\<close>: "AI API Key Loaded. Client ready for block solving."
  \<^item> \<open>CannotStart\<close>: "ERROR: Cannot start. No API Key loaded."
  \<^item> \<open>AlreadyRunning\<close>: "Algorithm is already running."
  \<^item> \<open>AlgorithmStarted\<close>: "*** A.I. ALGORITHM STARTED: .. ***"
  \<^item> \<open>ManuallyStopped\<close>: "Algorithm manually STOPPED."
  \<^item> \<open>SolveStarting\<close>: "Starting AI block resolution (Diff: ..).."
  \<^item> \<open>ProofReceived\<close>: "AI Proof of Solution received: ..."
  \<^item> \<open>BlockMinted\<close>: "*** BLOCK MINTED: #.. ***"
  \<^item> \<open>WonWith\<close>: "Node: .. won with Difficulty: .."
  \<^item> \<open>RewardBreakdown\<close>: "Base Reward: .. | Luck Modifier: .."
  \<^item> \<open>RewardAllocated\<close>: "Final Reward Allocated: ... New Balance: .."
  \<^item> \<open>StampedMetadata\<close>: "Stamped Metadata: Time=.., Bit=.., Hex=.."
  \<^item> \<open>FileReference\<close>: "File Reference: Ref-..-...mccos (..)"
  \<^item> \<open>EngineStarted\<close>: "Async AI Engine started at: .."
  \<^item> \<open>CycleStart\<close>: "[CYCLE START] New Block Cycle #.. initiated."
  \<^item> \<open>DifficultySet\<close>: "Difficulty set to: .."
  \<^item> \<open>LocalWin\<close>: "LOCAL AI WIN: Proof of Algorithm achieved first!"
  \<^item> \<open>NetworkLoss\<close>: "NETWORK LOSS: Another peer minted the block first."
  \<^item> \<open>CompetitionCancelled\<close>: "AI Competition cancelled due to engine stop."
  \<^item> \<open>CompetitionError\<close>: "Critical Competition Error: .."
  \<^item> \<open>SolvingFailed\<close>: "Block solving failed or engine stopped."
  \<^item> \<open>CycleComplete\<close>: "Block cycle complete. Waiting ..s for next mint..."
  \<^item> \<open>P2PMonitor\<close>: "P2P Monitor running (Latency check: ..s)..."
  \<^item> \<open>StopCommand\<close>: "Async AI Engine received STOP command."
\<close>

datatype notice =
    NodeInitialized string
  | ApiKeyEmpty
  | ApiKeyLoaded
  | CannotStart
  | AlreadyRunning
  | AlgorithmStarted
  | ManuallyStopped
  | SolveStarting real
  | ProofReceived string
  | BlockMinted int
  | WonWith string real
  | RewardBreakdown real real
  | RewardAllocated real real
  | StampedMetadata string string
  | FileReference int
  | EngineStarted
  | CycleStart int
  | DifficultySet real
  | LocalWin
  | NetworkLoss
  | CompetitionCancelled
  | CompetitionError string
  | SolvingFailed
  | CycleComplete nat
  | P2PMonitor real
  | StopCommand

type_synonym log_entry = "notice \<times> color"

record manager =
  api_key :: string
  log_entries :: "log_entry list"
  is_running :: bool
  block_height :: int
  peer_count :: int
  wallet_address :: string
  balance :: real
  current_difficulty :: real
  last_block_hash :: string
  competing_nodes :: "(string \<times> real) list"
  node_id :: string

text \<open>Exceptions: \<open>asyncio.CancelledError\<close>, and any other exception with its message.\<close>

datatype exn = CancelledError | Exception string

subsection \<open>Constants\<close>

definition BLOCK_REWARD :: real where "BLOCK_REWARD = 5.0"
definition BLOCK_TIME_SECONDS :: nat where "BLOCK_TIME_SECONDS = 5"
definition LUCK_FACTOR_MAX :: real where "LUCK_FACTOR_MAX = 0.15"
definition BASE_DIFFICULTY :: real where "BASE_DIFFICULTY = 100.0"
definition DIFFICULTY_SWIRL_RANGE :: real where "DIFFICULTY_SWIRL_RANGE = 50.0"
definition MAX_PEERS :: int where "MAX_PEERS = 30"
definition MIN_PEERS :: int where "MIN_PEERS = 10"

section \<open>Number formatting and parsing\<close>

text \<open>
  \<open>radix b dig n\<close> writes \<open>n\<close> in base \<open>b\<close>, most significant digit first, as Python's
  \<open>format\<close> and \<open>bin\<close> do: \<open>0\<close> is one digit, there are no leading zeros.
\<close>

function radix :: "nat \<Rightarrow> (nat \<Rightarrow> char) \<Rightarrow> nat \<Rightarrow> string" where
  "radix b dig n =
     (if b < 2 \<or> n < b then [dig n] else radix b dig (n div b) @ [dig (n mod b)])"
  by pat_completeness auto
termination
  by (relation "measure (\<lambda>(b, dig, n). n)") auto

declare radix.simps [simp del]

definition lower_digit :: "nat \<Rightarrow> char" where
  "lower_digit d = ''0123456789abcdef'' ! d"

definition upper_digit :: "nat \<Rightarrow> char" where
  "upper_digit d = ''0123456789ABCDEF'' ! d"

definition zfill :: "nat \<Rightarrow> string \<Rightarrow> string" where
  "zfill w s = replicate (w - length s) CHR ''0'' @ s"

definition format_X :: "nat \<Rightarrow> string" where  \<comment> \<open>\<open>f"{n:X}"\<close>\<close>
  "format_X n = radix 16 upper_digit n"

definition format_064x :: "nat \<Rightarrow> string" where  \<comment> \<open>\<open>f"{n:064x}"\<close>\<close>
  "format_064x n = zfill 64 (radix 16 lower_digit n)"

definition py_bin :: "nat \<Rightarrow> string" where  \<comment> \<open>\<open>bin(n)\<close>\<close>
  "py_bin n = ''0b'' @ radix 2 lower_digit n"

definition py_str :: "nat \<Rightarrow> string" where  \<comment> \<open>\<open>str(n)\<close>\<close>
  "py_str n = radix 10 lower_digit n"

fun hex_value :: "char \<Rightarrow> nat option" where
  "hex_value c =
     (let k = of_char c :: nat in
      if 48 \<le> k \<and> k \<le> 57 then Some (k - 48)
      else if 97 \<le> k \<and> k \<le> 102 then Some (k - 87)
      else if 65 \<le> k \<and> k \<le> 70 then Some (k - 55)
      else None)"

fun parse_hex :: "nat \<Rightarrow> string \<Rightarrow> nat option" where
  "parse_hex acc [] = Some acc"
| "parse_hex acc (c # cs) =
     (case hex_value c of None \<Rightarrow> None | Some d \<Rightarrow> parse_hex (16 * acc + d) cs)"

text \<open>
  \<open>int(s, 16)\<close> on a string of hexadecimal digits with an optional \<open>0x\<close> prefix; anything
  else is a \<open>ValueError\<close> (\<open>None\<close>). Signs, blanks and underscores, which Python also
  accepts, do not occur in the strings the node builds.
\<close>

definition py_int16 :: "string \<Rightarrow> nat option" where
  "py_int16 s =
     (let body = (if take 2 s = ''0x'' \<or> take 2 s = ''0X'' then drop 2 s else s)
      in if body = [] then None else parse_hex 0 body)"

section \<open>The manager\<close>

definition log_message :: "notice \<Rightarrow> color \<Rightarrow> manager \<Rightarrow> manager" where
  "log_message message c m = m\<lparr>log_entries := log_entries m @ [(message, c)]\<rparr>"

text \<open>
  \<open>__init__\<close>: the wallet address is \<open>AIA-QTL-\<close> followed by the upper-case hex of eight
  random bytes, the node id is \<open>AIAlgoNode-\<close> followed by a number drawn from 1000..9999.
\<close>

definition generate_unique_address :: "nat \<Rightarrow> string" where
  "generate_unique_address urandom8 = ''AIA-QTL-'' @ zfill 16 (format_X urandom8)"

definition init_manager :: "nat \<Rightarrow> nat \<Rightarrow> manager" where
  "init_manager urandom8 node_number =
     (let m = \<lparr> api_key = '''', log_entries = [], is_running = False,
                 block_height = 12345, peer_count = 12,
                 wallet_address = generate_unique_address urandom8,
                 balance = 0.0, current_difficulty = 0.0,
                 last_block_hash = ''0x00000000000000000000000000000000'',
                 competing_nodes = [],
                 node_id = ''AIAlgoNode-'' @ py_str node_number \<rparr>
      in log_message (NodeInitialized (node_id m)) Teal m)"

definition set_api_key :: "string \<Rightarrow> manager \<Rightarrow> manager \<times> bool" where
  "set_api_key key m =
     (if key = [] then (log_message ApiKeyEmpty Red m, False)
      else (log_message ApiKeyLoaded Teal (m\<lparr>api_key := key\<rparr>), True))"

definition start_algorithm :: "manager \<Rightarrow> manager \<times> bool" where
  "start_algorithm m =
     (if api_key m = [] then (log_message CannotStart Red m, False)
      else if is_running m then (log_message AlreadyRunning Gold m, True)
      else (log_message AlgorithmStarted Teal (m\<lparr>is_running := True\<rparr>), True))"

definition stop_algorithm :: "manager \<Rightarrow> manager \<times> bool" where
  "stop_algorithm m =
     (if is_running m then (log_message ManuallyStopped Teal (m\<lparr>is_running := False\<rparr>), True)
      else (m, False))"

text \<open>
  \<open>solve_block_encryption\<close>, run to completion: \<open>u\<close> is the draw of
  \<open>random.uniform(1, 3)\<close> and \<open>bits\<close> the draw of \<open>random.getrandbits(64)\<close>. The coroutine
  sleeps for \<open>latency\<close> seconds between its two notifications; it returns the latency it
  slept for next to the proof.
\<close>

definition solve_block_encryption :: "real \<Rightarrow> real \<Rightarrow> nat \<Rightarrow> manager \<Rightarrow> manager \<times> real \<times> string" where
  "solve_block_encryption difficulty u bits m =
     (let m = log_message (SolveStarting difficulty) Gold m;
          latency = difficulty / 100 + u;
          ai_proof = ''AI_Solution_Proof_'' @ format_X bits;
          m = log_message (ProofReceived (take 20 ai_proof)) Teal m
      in (m, latency, ai_proof))"

text \<open>
  A function that can raise after it has changed the manager returns the manager as it is
  at that point together with the exception, \<open>None\<close> when it returns normally.
\<close>

definition stamp_block_metadata :: "real \<Rightarrow> manager \<Rightarrow> manager \<times> exn option" where
  "stamp_block_metadata reward_amount m =
     (let hex_data = take 10 (last_block_hash m)
      in case py_int16 (last_block_hash m) of
           None \<Rightarrow> (m, Some (Exception ''invalid literal for int() with base 16''))
         | Some n \<Rightarrow>
             (let binary_data = take 10 (py_bin n);
                  m = log_message (StampedMetadata binary_data hex_data) Teal m;
                  m = log_message (FileReference (block_height m)) Teal m
              in (m, None)))"

text \<open>
  \<open>distribute_reward\<close>: \<open>luck_modifier\<close> is the draw of
  \<open>random.uniform(-LUCK_FACTOR_MAX, LUCK_FACTOR_MAX)\<close> and \<open>bits256\<close> the draw of
  \<open>random.getrandbits(256)\<close>.
\<close>

definition distribute_reward ::
  "string \<Rightarrow> real \<Rightarrow> real \<Rightarrow> nat \<Rightarrow> manager \<Rightarrow> manager \<times> exn option" where
  "distribute_reward winner_node_id difficulty luck_modifier bits256 m =
     (let base_reward_amount = BLOCK_REWARD;
          final_reward = base_reward_amount * (1 + luck_modifier);
          m = m\<lparr>balance := balance m + final_reward\<rparr>;
          m = m\<lparr>block_height := block_height m + 1\<rparr>;
          m = m\<lparr>current_difficulty := difficulty\<rparr>;
          m = m\<lparr>last_block_hash := ''0x'' @ format_064x bits256\<rparr>;
          m = log_message (BlockMinted (block_height m)) Teal m;
          m = log_message (WonWith winner_node_id difficulty) Gold m;
          m = log_message (RewardBreakdown base_reward_amount luck_modifier) Gold m;
          m = log_message (RewardAllocated final_reward (balance m)) Teal m
      in stamp_block_metadata final_reward m)"

section \<open>The engine\<close>

text \<open>
  The two competing operations of a race: \<open>solve_block_encryption\<close> and
  \<open>_simulate_p2p_consensus\<close>.
\<close>

datatype coro = SolveCoro | P2PCoro

text \<open>
  \<open>task\<close> is \<open>None\<close> until the hosting thread stores the engine's task; \<open>Some c\<close> is a
  task, \<open>c\<close> telling whether its cancellation has been requested. \<open>awaits\<close> is the history
  of the suspension points the loop has reached, in order. \<open>cancel_requests\<close> is the
  history of the \<open>cancel()\<close> calls made on the Tasks that run the competing operations,
  each call given by the operation.
\<close>

datatype suspension = RaceWait real | BlockSleep nat

record engine =
  running :: bool
  task :: "bool option"
  awaits :: "suspension list"
  cancel_requests :: "coro list"

type_synonym node = "manager \<times> engine"

definition calculate_dynamic_difficulty :: "real \<Rightarrow> manager \<Rightarrow> real" where
  "calculate_dynamic_difficulty random_factor m =
     (let current = (if current_difficulty m > 0 then current_difficulty m else BASE_DIFFICULTY);
          difficulty = current + random_factor
      in max difficulty 50.0)"

definition update_peer_count :: "int \<Rightarrow> manager \<Rightarrow> manager" where
  "update_peer_count drawn m = m\<lparr>peer_count := drawn\<rparr>"

text \<open>
  \<open>_simulate_p2p_consensus\<close>, run to completion: \<open>u\<close> is the draw of
  \<open>random.uniform(0.5, 2.0)\<close>. The coroutine announces the latency, sleeps for it and
  returns \<open>True\<close>.
\<close>

definition simulate_p2p_consensus :: "real \<Rightarrow> real \<Rightarrow> manager \<Rightarrow> manager \<times> real \<times> bool" where
  "simulate_p2p_consensus difficulty u m =
     (let simulated_network_latency = difficulty / 150 + u;
          m = log_message (P2PMonitor simulated_network_latency) Teal m
      in (m, simulated_network_latency, True))"

fun stop_engine :: "node \<Rightarrow> node" where
  "stop_engine (m, e) =
     (if running e
      then (log_message StopCommand Red m,
            e\<lparr>running := False, task := map_option (\<lambda>_. True) (task e)\<rparr>)
      else (m, e))"

subsection \<open>What happens while the loop is suspended\<close>

text \<open>
  While the loop waits (in the race or in the inter-block sleep) other code runs: the two
  competing operations append their notifications, and the controlling thread may call
  \<open>stop_engine\<close>. The order is the event loop's; the model takes it as an input.
\<close>

datatype concurrent = Appends notice color | CallsStopEngine

fun concurrently :: "concurrent list \<Rightarrow> node \<Rightarrow> node" where
  "concurrently [] s = s"
| "concurrently (Appends message c # rest) (m, e) =
     concurrently rest (log_message message c m, e)"
| "concurrently (CallsStopEngine # rest) s = concurrently rest (stop_engine s)"

subsection \<open>The race\<close>

text \<open>
  The Python values and objects the race handles. \<open>solve_block_encryption\<close> and
  \<open>_simulate_p2p_consensus\<close> are \<open>async def\<close> functions: calling them runs nothing and
  returns a coroutine object. \<open>_run_ai_competition\<close> binds these two coroutine objects to
  \<open>our_attempt_task\<close> and \<open>p2p_check_task\<close> and hands them to \<open>asyncio.wait\<close>.

  \<open>asyncio.wait\<close> does not run coroutine objects as they are. Through Python 3.10 it wraps
  each one in a new \<open>Task\<close> and returns the sets of those Tasks; from Python 3.11 on it
  raises \<open>TypeError\<close> when it is given a coroutine object. \<open>TaskObj c r\<close> is a finished Task
  that was created to run the coroutine \<open>c\<close>, with the way it finished: a Task that raised
  is finished too, and the wait does not re-raise its exception.
\<close>

datatype pyval = PyNone | PyStr string | PyBool bool

datatype completion = Returned pyval | Raised exn

datatype py_obj = CoroutineObj coro | TaskObj coro completion

text \<open>
  \<open>obj.result()\<close>: the value of a finished Task, or its exception; a coroutine object
  has no such method.
\<close>

fun result :: "py_obj \<Rightarrow> exn + pyval" where
  "result (TaskObj c (Returned v)) = Inr v"
| "result (TaskObj c (Raised x)) = Inl x"
| "result (CoroutineObj c) =
     Inl (Exception ''coroutine object has no attribute result'')"

text \<open>
  How \<open>await asyncio.wait(.., return_when=FIRST_COMPLETED)\<close> ends: a
  \<open>CancelledError\<close> is thrown into it (\<open>WaitCancelled\<close>), it raises another exception
  (\<open>WaitRaised\<close>, as it always does from Python 3.11 on), or it returns
  (\<open>WaitReturned\<close>) with the Tasks that have finished, each given by the coroutine it runs
  and the way it finished.
\<close>

datatype wait_outcome =
    WaitCancelled
  | WaitRaised string
  | WaitReturned "(coro \<times> completion) list"

record race_env =
  race_during :: "concurrent list"
  race_wait :: wait_outcome

text \<open>
  The pending set the wait returns beside the done set: the operations whose Tasks have
  not finished and go on running.
\<close>

definition still_running :: "(coro \<times> completion) list \<Rightarrow> coro list" where
  "still_running finished =
     filter (\<lambda>c. c \<notin> set (map fst finished)) [SolveCoro, P2PCoro]"

text \<open>The two \<open>except\<close> clauses of \<open>_run_ai_competition\<close>.\<close>

fun competition_except :: "exn \<Rightarrow> node \<Rightarrow> node \<times> pyval" where
  "competition_except CancelledError (m, e) =
     ((log_message CompetitionCancelled Red m, e), PyStr '''')"
| "competition_except (Exception msg) (m, e) =
     ((log_message (CompetitionError msg) Red m, e), PyStr '''')"

text \<open>
  \<open>_run_ai_competition\<close>. It returns a string, or \<open>None\<close> when it falls off its end.
  \<open>results\<close> is the done set of the wait; the two membership tests compare the coroutine
  objects with its elements. \<open>pending\<close> is bound and not used again: the source calls
  \<open>cancel()\<close> on no Task of the race, so no branch adds to \<open>cancel_requests\<close>.
\<close>

definition run_ai_competition :: "real \<Rightarrow> race_env \<Rightarrow> node \<Rightarrow> node \<times> pyval" where
  "run_ai_competition difficulty env s =
     (let (m, e) = s;
          our_attempt_task = CoroutineObj SolveCoro;
          p2p_check_task = CoroutineObj P2PCoro;
          (m, e) = concurrently (race_during env)
                     (m, e\<lparr>awaits := awaits e @ [RaceWait difficulty]\<rparr>)
      in case race_wait env of
           WaitCancelled \<Rightarrow> competition_except CancelledError (m, e)
         | WaitRaised msg \<Rightarrow> competition_except (Exception msg) (m, e)
         | WaitReturned finished \<Rightarrow>
             (let results = map (\<lambda>(c, r). TaskObj c r) finished;
                  pending = still_running finished
              in if our_attempt_task \<in> set results then
                   (let m = log_message LocalWin Teal m
                    in case result our_attempt_task of
                         Inr proof_token \<Rightarrow> ((m, e), proof_token)
                       | Inl x \<Rightarrow> competition_except x (m, e))
                 else if p2p_check_task \<in> set results then
                   ((log_message NetworkLoss Red m, e), PyStr '''')
                 else ((m, e), PyNone)))"

text \<open>Python's truth value: \<open>None\<close>, \<open>""\<close> and \<open>False\<close> are false.\<close>

fun truthy :: "pyval \<Rightarrow> bool" where
  "truthy PyNone = False"
| "truthy (PyStr s) = (s \<noteq> [])"
| "truthy (PyBool b) = b"

subsection \<open>One block cycle\<close>

text \<open>
  The inputs of one iteration of the loop of \<open>start_engine\<close>: the draw of the difficulty
  swirl (from \<open>[-DIFFICULTY_SWIRL_RANGE, DIFFICULTY_SWIRL_RANGE]\<close>), the draw of the peer
  count (from \<open>MIN_PEERS\<close> to \<open>MAX_PEERS\<close>), the race, the draws of \<open>distribute_reward\<close>,
  and what happens during the inter-block sleep (\<open>sleep_cancelled\<close>: a \<open>CancelledError\<close>
  is thrown into it).
\<close>

record cycle_env =
  swirl :: real
  drawn_peers :: int
  race :: race_env
  luck :: real
  hash_bits :: nat
  sleep_during :: "concurrent list"
  sleep_cancelled :: bool

datatype outcome = Continues node | Propagates exn node

text \<open>
  The loop body, in the four numbered steps of the source. Step 1 computes the difficulty
  of the new block, refreshes the peer count and announces the cycle.
\<close>

definition cycle_begin :: "cycle_env \<Rightarrow> manager \<Rightarrow> real \<times> manager" where
  "cycle_begin env m =
     (let difficulty = calculate_dynamic_difficulty (swirl env) m;
          m = update_peer_count (drawn_peers env) m;
          m = log_message (CycleStart (block_height m + 1)) Gold m;
          m = log_message (DifficultySet difficulty) Gold m
      in (difficulty, m))"

text \<open>Step 3 processes what the race (step 2) returned.\<close>

definition process_result ::
  "pyval \<Rightarrow> real \<Rightarrow> cycle_env \<Rightarrow> node \<Rightarrow> manager \<times> exn option" where
  "process_result winning_proof difficulty env s =
     (let (m, e) = s
      in if truthy winning_proof \<and> running e
         then distribute_reward (node_id m) difficulty (luck env) (hash_bits env) m
         else (log_message SolvingFailed Red m, None))"

text \<open>Step 4 announces the wait and sleeps for the block time.\<close>

definition await_next_block :: "cycle_env \<Rightarrow> node \<Rightarrow> outcome" where
  "await_next_block env s =
     (let (m, e) = s;
          m = log_message (CycleComplete BLOCK_TIME_SECONDS) Gold m;
          (m, e) = concurrently (sleep_during env)
                     (m, e\<lparr>awaits := awaits e @ [BlockSleep BLOCK_TIME_SECONDS]\<rparr>)
      in if sleep_cancelled env then Propagates CancelledError (m, e) else Continues (m, e))"

definition cycle :: "cycle_env \<Rightarrow> node \<Rightarrow> outcome" where
  "cycle env s =
     (let (m, e) = s;
          (difficulty, m) = cycle_begin env m;
          ((m, e), winning_proof) = run_ai_competition difficulty (race env) (m, e);
          (m, raised) = process_result winning_proof difficulty env (m, e)
      in case raised of
           Some x \<Rightarrow> Propagates x (m, e)
         | None \<Rightarrow> await_next_block env (m, e))"

subsection \<open>The loop\<close>

text \<open>
  The loop runs until \<open>running\<close> is false at its head (\<open>LoopExited\<close>) or an exception
  leaves it (\<open>TaskEnded\<close>). It is run on the inputs of finitely many cycles; when they are
  used up and the loop would go on, the run is \<open>StillRunning\<close>.
\<close>

datatype run_end = LoopExited node | TaskEnded exn node | StillRunning node

fun run_cycles :: "cycle_env list \<Rightarrow> node \<Rightarrow> run_end" where
  "run_cycles [] s = (if running (snd s) then StillRunning s else LoopExited s)"
| "run_cycles (env # rest) s =
     (if running (snd s)
      then (case cycle env s of
              Continues s' \<Rightarrow> run_cycles rest s'
            | Propagates x s' \<Rightarrow> TaskEnded x s')
      else LoopExited s)"

definition start_engine :: "cycle_env list \<Rightarrow> node \<Rightarrow> run_end" where
  "start_engine envs s =
     (let (m, e) = s;
          e = e\<lparr>running := True\<rparr>;
          m = log_message EngineStarted Teal m
      in run_cycles envs (m, e))"

text \<open>The node as a cycle or a run leaves it.\<close>

fun node_of :: "outcome \<Rightarrow> node" where
  "node_of (Continues s) = s"
| "node_of (Propagates x s) = s"

fun end_node :: "run_end \<Rightarrow> node" where
  "end_node (LoopExited s) = s"
| "end_node (TaskEnded x s) = s"
| "end_node (StillRunning s) = s"

text \<open>The ledger fields of the manager: the ones a minted block changes.\<close>

definition ledger :: "manager \<Rightarrow> int \<times> real \<times> real \<times> string" where
  "ledger m = (block_height m, current_difficulty m, balance m, last_block_hash m)"

text \<open>
  The wait returns with the peer check among the finished Tasks and the local attempt not
  among them: another peer was first.
\<close>

fun peer_first :: "wait_outcome \<Rightarrow> bool" where
  "peer_first (WaitReturned finished) =
     (P2PCoro \<in> set (map fst finished) \<and> SolveCoro \<notin> set (map fst finished))"
| "peer_first WaitCancelled = False"
| "peer_first (WaitRaised msg) = False"

text \<open>
  An error that is no cancellation: the wait itself raises, or one of the finished Tasks
  has raised.
\<close>

fun raised_in :: "(coro \<times> completion) list \<Rightarrow> bool" where
  "raised_in [] = False"
| "raised_in ((c, Raised (Exception msg)) # rest) = True"
| "raised_in ((c, r) # rest) = raised_in rest"

fun internal_error :: "wait_outcome \<Rightarrow> bool" where
  "internal_error (WaitRaised msg) = True"
| "internal_error (WaitReturned finished) = raised_in finished"
| "internal_error WaitCancelled = False"

section \<open>Concrete inputs\<close>

text \<open>
  An engine as \<open>__init__\<close> leaves it, with the task the hosting thread stores in it, the
  same engine once \<open>start_engine\<close> has set \<open>running\<close>, and the inputs of a cycle the node
  loses: the swirl draws \<open>0\<close>, the peer check finishes first, nothing else happens during
  the waits.
\<close>

definition hosted_engine :: engine where
  "hosted_engine =
     \<lparr> running = False, task = Some False, awaits = [], cancel_requests = [] \<rparr>"

definition running_engine :: engine where
  "running_engine = hosted_engine\<lparr>running := True\<rparr>"

definition loss_env :: cycle_env where
  "loss_env = \<lparr> swirl = 0, drawn_peers = 20,
                race = \<lparr> race_during = [],
                         race_wait = WaitReturned [(P2PCoro, Returned (PyBool True))] \<rparr>,
                luck = 0, hash_bits = 255, sleep_during = [], sleep_cancelled = False \<rparr>"

text \<open>
  Races: the local attempt finishes first, with a proof; both have finished when the wait
  returns; the controlling thread stops the engine and the wait is cancelled.
\<close>

definition solve_first_race :: race_env where
  "solve_first_race =
     \<lparr> race_during = [],
       race_wait = WaitReturned [(SolveCoro, Returned (PyStr ''AI_Solution_Proof_FF''))] \<rparr>"

definition both_done_race :: race_env where
  "both_done_race =
     \<lparr> race_during = [],
       race_wait = WaitReturned [(SolveCoro, Returned (PyStr ''AI_Solution_Proof_FF'')),
                                 (P2PCoro, Returned (PyBool True))] \<rparr>"

definition stopped_race :: race_env where
  "stopped_race = \<lparr> race_during = [CallsStopEngine], race_wait = WaitCancelled \<rparr>"

text \<open>
  Cycles: the local attempt finishes first; the engine is stopped during the race and the
  wait cancelled.
\<close>

definition solve_first_env :: cycle_env where
  "solve_first_env = \<lparr> swirl = 0, drawn_peers = 20, race = solve_first_race,
               luck = 0.1, hash_bits = 255, sleep_during = [], sleep_cancelled = False \<rparr>"

definition stop_env :: cycle_env where
  "stop_env = \<lparr> swirl = 0, drawn_peers = 20, race = stopped_race,
                luck = 0, hash_bits = 255, sleep_during = [], sleep_cancelled = False \<rparr>"

text \<open>
  Races in which the peer check raises while the local attempt is pending, and in which
  the wait itself raises; a cycle with the latter.
\<close>

definition peer_error_race :: race_env where
  "peer_error_race =
     \<lparr> race_during = [], race_wait = WaitReturned [(P2PCoro, Raised (Exception ''boom''))] \<rparr>"

definition wait_error_race :: race_env where
  "wait_error_race =
     \<lparr> race_during = [],
       race_wait = WaitRaised ''Passing coroutines is forbidden, use tasks explicitly.'' \<rparr>"

definition wait_error_env :: cycle_env where
  "wait_error_env = loss_env\<lparr>race := wait_error_race\<rparr>"

section \<open>Facts about formatting and parsing\<close>

text \<open>
  What \<open>f"0x{n:064x}"\<close> writes, \<open>int(.., 16)\<close> reads back; a number below \<open>2 ^ 256\<close>
  fills exactly 64 digits.
\<close>

lemma hex_value_lower_digit: "d < 16 \<Longrightarrow> hex_value (lower_digit d) = Some d"
proof -
  assume "d < 16"
  then have "d \<in> set [0..<16]" by simp
  then show ?thesis
    by (simp add: upt_rec lower_digit_def) (auto simp: Let_def)
qed

lemma parse_hex_append:
  "parse_hex acc (xs @ ys) = (case parse_hex acc xs of None \<Rightarrow> None | Some a \<Rightarrow> parse_hex a ys)"
  by (induction xs arbitrary: acc) (auto split: option.splits)

lemma parse_hex_radix:
  "parse_hex acc (radix 16 lower_digit n) = Some (acc * 16 ^ length (radix 16 lower_digit n) + n)"
proof (induction "16::nat" lower_digit n arbitrary: acc rule: radix.induct)
  case (1 n)
  show ?case
  proof (cases "n < 16")
    case True
    then show ?thesis
      by (subst (1 2) radix.simps) (simp add: hex_value_lower_digit del: hex_value.simps)
  next
    case False
    then have r: "radix 16 lower_digit n = radix 16 lower_digit (n div 16) @ [lower_digit (n mod 16)]"
      by (subst radix.simps) simp
    have m: "n mod 16 < 16" by simp
    show ?thesis
      using False 1[of acc] 
      by (simp add: r parse_hex_append hex_value_lower_digit[OF m] del: hex_value.simps) 
  qed
qed

lemma parse_hex_zeros: "parse_hex 0 (replicate k CHR ''0'' @ s) = parse_hex 0 s"
  by (induction k) (auto simp: Let_def)

lemma radix_nonempty: "radix b dig n \<noteq> []"
  by (subst radix.simps) simp

lemma py_int16_format: "py_int16 (''0x'' @ format_064x n) = Some n"
  by (simp add: py_int16_def format_064x_def zfill_def parse_hex_zeros parse_hex_radix radix_nonempty del: hex_value.simps)

lemma length_radix_le: "2 \<le> b \<Longrightarrow> n < b ^ k \<Longrightarrow> 0 < k \<Longrightarrow> length (radix b dig n) \<le> k"
proof (induction b dig n arbitrary: k rule: radix.induct)
  case (1 b dig n)
  show ?case
  proof (cases "n < b")
    case True
    then show ?thesis using 1(4) by (subst radix.simps) simp
  next
    case False
    obtain j where k: "k = Suc j" using 1(4) by (cases k) auto
    have "j > 0" using False 1(3) k by (cases j) auto
    moreover have "n div b < b ^ j" using 1(3) k 1(2)
      by (simp add: less_mult_imp_div_less mult.commute)
    ultimately have "length (radix b dig (n div b)) \<le> j"
      using 1(1)[of j] False 1(2) by simp
    then show ?thesis using False 1(2) k by (subst radix.simps) simp
  qed
qed

lemma length_format_064x: "n < 2 ^ 256 \<Longrightarrow> length (format_064x n) = 64"
proof -
  assume "n < 2 ^ 256"
  then have "n < (16::nat) ^ 64" by simp
  then have "length (radix 16 lower_digit n) \<le> 64"
    by (intro length_radix_le) simp_all
  then show ?thesis by (simp add: format_064x_def zfill_def)
qed

lemma lower_digit_in: "d < 16 \<Longrightarrow> lower_digit d \<in> set ''0123456789abcdef''"
  unfolding lower_digit_def by (rule nth_mem) simp

lemma set_radix_hex: "set (radix 16 lower_digit n) \<subseteq> set ''0123456789abcdef''"
proof (induction "16::nat" lower_digit n rule: radix.induct)
  case (1 n)
  show ?case
  proof (cases "n < 16")
    case True
    then show ?thesis using lower_digit_in[of n] by (subst radix.simps) simp
  next
    case False
    have "n mod 16 < 16" by simp
    then show ?thesis using False 1 lower_digit_in[of "n mod 16"]
      by (subst radix.simps) simp
  qed
qed

lemma set_format_064x: "set (format_064x n) \<subseteq> set ''0123456789abcdef''"
  using set_radix_hex[of n] by (auto simp: format_064x_def zfill_def)

section \<open>Facts about the reward allocation\<close>

lemma py_int16_format_cons: "py_int16 (CHR ''0'' # CHR ''x'' # format_064x n) = Some n"
  using py_int16_format[of n] by simp

lemma stamp_generated:
  "last_block_hash m = ''0x'' @ format_064x n \<Longrightarrow>
   stamp_block_metadata r m =
     (m\<lparr>log_entries := log_entries m @
          [(StampedMetadata (take 10 (py_bin n)) (take 10 (last_block_hash m)), Teal),
           (FileReference (block_height m), Teal)]\<rparr>, None)"
  by (simp add: stamp_block_metadata_def py_int16_format_cons log_message_def Let_def)

lemma distribute_reward_eq:
  "distribute_reward w d l n m =
     (m\<lparr>balance := balance m + 5 * (1 + l),
        block_height := block_height m + 1,
        current_difficulty := d,
        last_block_hash := ''0x'' @ format_064x n,
        log_entries := log_entries m @
          [(BlockMinted (block_height m + 1), Teal),
           (WonWith w d, Gold),
           (RewardBreakdown 5 l, Gold),
           (RewardAllocated (5 * (1 + l)) (balance m + 5 * (1 + l)), Teal),
           (StampedMetadata (take 10 (py_bin n)) (take 10 (''0x'' @ format_064x n)), Teal),
           (FileReference (block_height m + 1), Teal)]\<rparr>, None)"
  by (simp add: distribute_reward_def Let_def stamp_generated log_message_def BLOCK_REWARD_def)

section \<open>Facts about the engine\<close>

text \<open>
  Logging, \<open>stop_engine\<close>, the race and the inter-block sleep leave the ledger alone; once
  \<open>stop_engine\<close> has run, \<open>running\<close> stays false.
\<close>

lemma ledger_log_message [simp]: "ledger (log_message n c m) = ledger m"
  by (simp add: ledger_def log_message_def)

lemma ledger_stop_engine [simp]: "ledger (fst (stop_engine s)) = ledger (fst s)"
  by (cases s) simp

lemma ledger_concurrently [simp]: "ledger (fst (concurrently cs s)) = ledger (fst s)"
  by (induction cs s rule: concurrently.induct) simp_all

lemma awaits_stop_engine [simp]: "awaits (snd (stop_engine s)) = awaits (snd s)"
  by (cases s) simp

lemma awaits_concurrently [simp]: "awaits (snd (concurrently cs s)) = awaits (snd s)"
  by (induction cs s rule: concurrently.induct) simp_all

lemma not_running_stop_engine [simp]: "\<not> running (snd (stop_engine s))"
  by (cases s) simp

lemma not_running_concurrently: "\<not> running (snd s) \<Longrightarrow> \<not> running (snd (concurrently cs s))"
  by (induction cs s rule: concurrently.induct) simp_all

lemma stopped_concurrently:
  "CallsStopEngine \<in> set cs \<Longrightarrow> \<not> running (snd (concurrently cs s))"
proof (induction cs s rule: concurrently.induct)
  case (3 rest s)
  show ?case using not_running_concurrently[of "stop_engine s" rest] by simp
qed simp_all

subsection \<open>The race\<close>

text \<open>
  A coroutine object is none of the Tasks the wait returns, so neither membership test of
  the race succeeds: when the wait returns, the race falls off its end.
\<close>

lemma coroutine_not_in_results:
  "CoroutineObj c \<notin> set (map (\<lambda>(c, r). TaskObj c r) finished)"
  by (induction finished) auto

lemma race_returned_eq:
  "race_wait env = WaitReturned finished \<Longrightarrow>
   run_ai_competition d env s =
     (concurrently (race_during env)
        (fst s, (snd s)\<lparr>awaits := awaits (snd s) @ [RaceWait d]\<rparr>),
      PyNone)"
  by (auto simp: run_ai_competition_def Let_def case_prod_beta)

lemma race_cancelled_eq:
  "race_wait env = WaitCancelled \<Longrightarrow>
   run_ai_competition d env s =
     ((log_message CompetitionCancelled Red
         (fst (concurrently (race_during env)
                 (fst s, (snd s)\<lparr>awaits := awaits (snd s) @ [RaceWait d]\<rparr>))),
       snd (concurrently (race_during env)
                 (fst s, (snd s)\<lparr>awaits := awaits (snd s) @ [RaceWait d]\<rparr>))),
      PyStr '''')"
  by (simp add: run_ai_competition_def Let_def case_prod_beta)

lemma race_raised_eq:
  "race_wait env = WaitRaised msg \<Longrightarrow>
   run_ai_competition d env s =
     ((log_message (CompetitionError msg) Red
         (fst (concurrently (race_during env)
                 (fst s, (snd s)\<lparr>awaits := awaits (snd s) @ [RaceWait d]\<rparr>))),
       snd (concurrently (race_during env)
                 (fst s, (snd s)\<lparr>awaits := awaits (snd s) @ [RaceWait d]\<rparr>))),
      PyStr '''')"
  by (simp add: run_ai_competition_def Let_def case_prod_beta)

lemma race_never_true: "\<not> truthy (snd (run_ai_competition d env s))"
  by (cases "race_wait env")
     (simp_all add: race_cancelled_eq race_raised_eq race_returned_eq)

lemma ledger_run_ai_competition [simp]:
  "ledger (fst (fst (run_ai_competition d env s))) = ledger (fst s)"
  by (cases "race_wait env")
     (simp_all add: race_cancelled_eq race_raised_eq race_returned_eq)

lemma race_engine:
  "snd (fst (run_ai_competition d env s)) =
     snd (concurrently (race_during env) (fst s, (snd s)\<lparr>awaits := awaits (snd s) @ [RaceWait d]\<rparr>))"
  by (cases "race_wait env")
     (simp_all add: race_cancelled_eq race_raised_eq race_returned_eq)

lemma race_stopped:
  "CallsStopEngine \<in> set (race_during env) \<Longrightarrow>
   \<not> running (snd (fst (run_ai_competition d env s)))"
  by (simp add: race_engine stopped_concurrently)

subsection \<open>The cycle and the loop\<close>

lemma ledger_cycle_begin [simp]: "ledger (snd (cycle_begin env m)) = ledger m"
  by (simp add: cycle_begin_def Let_def update_peer_count_def ledger_def log_message_def)

lemma process_result_no_win:
  "\<not> (truthy wp \<and> running (snd s)) \<Longrightarrow>
   process_result wp d env s = (log_message SolvingFailed Red (fst s), None)"
  by (cases s) (auto simp: process_result_def)

lemma ledger_distribute_reward:
  "ledger (fst (distribute_reward w d l n m)) =
     (block_height m + 1, d, balance m + 5 * (1 + l), ''0x'' @ format_064x n)"
  by (simp add: distribute_reward_eq ledger_def)

lemma solve_proof:
  "snd (snd (solve_block_encryption d u bits m)) = ''AI_Solution_Proof_'' @ format_X bits"
  by (simp add: solve_block_encryption_def Let_def)

lemma ledger_await_next_block [simp]:
  "ledger (fst (node_of (await_next_block env s))) = ledger (fst s)"
  by (simp add: await_next_block_def Let_def case_prod_beta)

lemma awaits_await_next_block:
  "awaits (snd (node_of (await_next_block env s))) = awaits (snd s) @ [BlockSleep BLOCK_TIME_SECONDS]"
  by (simp add: await_next_block_def Let_def case_prod_beta)

lemma running_await_next_block:
  "\<not> running (snd s) \<Longrightarrow> \<not> running (snd (node_of (await_next_block env s)))"
  by (simp add: await_next_block_def Let_def case_prod_beta not_running_concurrently)

lemma await_next_block_cases:
  "await_next_block env s =
     (if sleep_cancelled env then Propagates CancelledError (node_of (await_next_block env s))
      else Continues (node_of (await_next_block env s)))"
  by (simp add: await_next_block_def Let_def case_prod_beta)

lemma cycle_unfold:
  "cycle env s =
     (let b = cycle_begin env (fst s);
          r = run_ai_competition (fst b) (race env) (snd b, snd s);
          p = process_result (snd r) (fst b) env (fst r)
      in case snd p of
           Some x \<Rightarrow> Propagates x (fst p, snd (fst r))
         | None \<Rightarrow> await_next_block env (fst p, snd (fst r)))"
  by (simp add: cycle_def Let_def case_prod_beta cong: option.case_cong)

text \<open>
  As the race never returns a true value, every cycle takes the failure branch and goes on
  to the inter-block sleep, and no cycle changes the ledger.
\<close>

lemma cycle_fails:
  "cycle env s =
     await_next_block env
       (log_message SolvingFailed Red
          (fst (fst (run_ai_competition (fst (cycle_begin env (fst s))) (race env)
                      (snd (cycle_begin env (fst s)), snd s)))),
        snd (fst (run_ai_competition (fst (cycle_begin env (fst s))) (race env)
                      (snd (cycle_begin env (fst s)), snd s))))"
  by (simp add: cycle_unfold Let_def process_result_no_win race_never_true)

lemma cycle_cases:
  "cycle env s =
     (if sleep_cancelled env then Propagates CancelledError (node_of (cycle env s))
      else Continues (node_of (cycle env s)))"
  unfolding cycle_fails by (rule await_next_block_cases)

lemma ledger_cycle [simp]: "ledger (fst (node_of (cycle env s))) = ledger (fst s)"
  by (simp add: cycle_fails)

lemma run_cycles_step:
  assumes "running (snd s)"
  shows "run_cycles (env # rest) s =
     (if sleep_cancelled env then TaskEnded CancelledError (node_of (cycle env s))
      else run_cycles rest (node_of (cycle env s)))"
proof (cases "sleep_cancelled env")
  case True
  then have "cycle env s = Propagates CancelledError (node_of (cycle env s))"
    using cycle_cases [of env s] by simp
  then have "(case cycle env s of Continues s' \<Rightarrow> run_cycles rest s'
              | Propagates x s' \<Rightarrow> TaskEnded x s') =
             TaskEnded CancelledError (node_of (cycle env s))"
    by (metis outcome.simps(6))
  with True assms show ?thesis by simp
next
  case False
  then have "cycle env s = Continues (node_of (cycle env s))"
    using cycle_cases [of env s] by simp
  then have "(case cycle env s of Continues s' \<Rightarrow> run_cycles rest s'
              | Propagates x s' \<Rightarrow> TaskEnded x s') =
             run_cycles rest (node_of (cycle env s))"
    by (metis outcome.simps(5))
  with False assms show ?thesis by simp
qed

lemma ledger_run_cycles [simp]:
  "ledger (fst (end_node (run_cycles envs s))) = ledger (fst s)"
proof (induction envs arbitrary: s)
  case Nil
  show ?case by simp
next
  case (Cons env rest)
  show ?case
  proof (cases "running (snd s)")
    case False
    then show ?thesis by simp
  next
    case True
    show ?thesis
      using Cons.IH [of "node_of (cycle env s)"]
      by (simp add: run_cycles_step [OF True] del: run_cycles.simps)
  qed
qed

lemma stop_env_difficulty: "fst (cycle_begin stop_env (init_manager 0 1000)) = 100"
  by (simp add: cycle_begin_def calculate_dynamic_difficulty_def BASE_DIFFICULTY_def
        init_manager_def log_message_def stop_env_def Let_def)

subsection \<open>Cancel requests\<close>

text \<open>
  No step of the engine calls \<open>cancel()\<close> on a Task of a competing operation: the
  history of those calls is the same after \<open>stop_engine\<close>, a race, a cycle and a whole
  run. The race suspends once, in its wait.
\<close>

lemma cancel_requests_stop_engine [simp]:
  "cancel_requests (snd (stop_engine s)) = cancel_requests (snd s)"
  by (cases s) simp

lemma cancel_requests_concurrently [simp]:
  "cancel_requests (snd (concurrently cs s)) = cancel_requests (snd s)"
  by (induction cs s rule: concurrently.induct) simp_all

lemma cancel_requests_run_ai_competition [simp]:
  "cancel_requests (snd (fst (run_ai_competition d env s))) = cancel_requests (snd s)"
  by (simp add: race_engine)

lemma awaits_run_ai_competition:
  "awaits (snd (fst (run_ai_competition d env s))) = awaits (snd s) @ [RaceWait d]"
  by (simp add: race_engine)

lemma cancel_requests_await_next_block [simp]:
  "cancel_requests (snd (node_of (await_next_block env s))) = cancel_requests (snd s)"
  by (simp add: await_next_block_def Let_def case_prod_beta)

lemma cancel_requests_cycle [simp]:
  "cancel_requests (snd (node_of (cycle env s))) = cancel_requests (snd s)"
  by (simp add: cycle_fails)

lemma cancel_requests_run_cycles [simp]:
  "cancel_requests (snd (end_node (run_cycles envs s))) = cancel_requests (snd s)"
proof (induction envs arbitrary: s)
  case Nil
  show ?case by simp
next
  case (Cons env rest)
  show ?case
  proof (cases "running (snd s)")
    case False
    then show ?thesis by simp
  next
    case True
    show ?thesis
      using Cons.IH [of "node_of (cycle env s)"]
      by (simp add: run_cycles_step [OF True] del: run_cycles.simps)
  qed
qed

lemma cancel_requests_start_engine:
  "cancel_requests (snd (end_node (start_engine envs s))) = cancel_requests (snd s)"
  by (simp add: start_engine_def Let_def case_prod_beta)

section \<open>Properties\<close>

text \<open>
  C2. For every previous difficulty, zero and negative ones included, and every drawn swirl
  value, the dynamic difficulty is the maximum of 50 and base plus delta, where the base is
  the previous difficulty when that is positive and 100 otherwise; the result is never
  below 50.
\<close>

theorem calculate_dynamic_difficulty_floor:
  "calculate_dynamic_difficulty delta m =
     max ((if current_difficulty m > 0 then current_difficulty m else 100) + delta) 50
   \<and> 50 \<le> calculate_dynamic_difficulty delta m"
  by (simp add: calculate_dynamic_difficulty_def BASE_DIFFICULTY_def Let_def)

text \<open>
  C1. On a win the reward allocation is one transition of the manager: the balance grows by
  the computed reward, the block height by exactly one, the current difficulty becomes the
  difficulty the race was won at, and the last block hash becomes \<open>0x\<close> followed by the 64
  lower-case hex digits of the freshly drawn 256-bit value. Peer count, wallet address, node
  id, credential, running flag and competing nodes keep their values, the log is only
  extended, and no exception is raised. \<open>distribute_reward\<close> contains no suspension point:
  it is a function of the manager alone.
\<close>

theorem distribute_reward_transition:
  fixes winner :: string and difficulty l :: real and bits256 :: nat and m :: manager
  defines "m' \<equiv> fst (distribute_reward winner difficulty l bits256 m)"
  assumes "bits256 < 2 ^ 256"
  shows "snd (distribute_reward winner difficulty l bits256 m) = None
    \<and> balance m' = balance m + BLOCK_REWARD * (1 + l)
    \<and> block_height m' = block_height m + 1
    \<and> current_difficulty m' = difficulty
    \<and> last_block_hash m' = ''0x'' @ format_064x bits256
    \<and> length (format_064x bits256) = 64
    \<and> set (format_064x bits256) \<subseteq> set ''0123456789abcdef''
    \<and> py_int16 (last_block_hash m') = Some bits256
    \<and> peer_count m' = peer_count m
    \<and> wallet_address m' = wallet_address m
    \<and> node_id m' = node_id m
    \<and> api_key m' = api_key m
    \<and> is_running m' = is_running m
    \<and> competing_nodes m' = competing_nodes m
    \<and> take (length (log_entries m)) (log_entries m') = log_entries m"
  using assms set_format_064x[of bits256]
  by (simp add: distribute_reward_eq length_format_064x py_int16_format_cons BLOCK_REWARD_def)

theorem distribute_reward_transition_witness:
  "(255::nat) < 2 ^ 256
   \<and> balance (fst (distribute_reward ''AIAlgoNode-1000'' 120 0.1 255 (init_manager 0 1000))) = 5.5
   \<and> block_height (fst (distribute_reward ''AIAlgoNode-1000'' 120 0.1 255 (init_manager 0 1000))) = 12346
   \<and> current_difficulty (fst (distribute_reward ''AIAlgoNode-1000'' 120 0.1 255 (init_manager 0 1000))) = 120
   \<and> last_block_hash (fst (distribute_reward ''AIAlgoNode-1000'' 120 0.1 255 (init_manager 0 1000))) =
       ''0x00000000000000000000000000000000000000000000000000000000000000ff''"
  using distribute_reward_transition [of 255 "''AIAlgoNode-1000''" 120 "0.1" "init_manager 0 1000"]
  apply (simp add: init_manager_def log_message_def BLOCK_REWARD_def Let_def)
  apply code_simp
  done

text \<open>
  C7. The reward allocated on a win is \<open>5.0 * (1 + luck)\<close>; with the luck drawn from
  \<open>[-0.15, 0.15]\<close> it lies in \<open>[5.0 * 0.85, 5.0 * 1.15] = [4.25, 5.75]\<close>, and it does not
  depend on the difficulty.
\<close>

theorem reward_within_luck_bounds:
  fixes winner :: string and difficulty l :: real and bits256 :: nat and m :: manager
  defines "reward \<equiv> balance (fst (distribute_reward winner difficulty l bits256 m)) - balance m"
  assumes "- LUCK_FACTOR_MAX \<le> l" and "l \<le> LUCK_FACTOR_MAX"
  shows "reward = 5.0 * (1 + l)
    \<and> 5.0 * 0.85 \<le> reward \<and> reward \<le> 5.0 * 1.15
    \<and> 4.25 \<le> reward \<and> reward \<le> 5.75
    \<and> balance (fst (distribute_reward winner difficulty' l bits256 m)) - balance m = reward"
  using assms by (simp add: distribute_reward_eq LUCK_FACTOR_MAX_def)

theorem reward_within_luck_bounds_witness:
  "- LUCK_FACTOR_MAX \<le> 0.15 \<and> (0.15::real) \<le> LUCK_FACTOR_MAX
   \<and> balance (fst (distribute_reward ''AIAlgoNode-1000'' 120 0.15 255 (init_manager 0 1000)))
       - balance (init_manager 0 1000) = 5.75"
  using reward_within_luck_bounds [of "0.15" "''AIAlgoNode-1000''" 120 255 "init_manager 0 1000" 120]
  by (simp add: LUCK_FACTOR_MAX_def)

text \<open>
  C9. \<open>set_api_key\<close> with an empty key returns \<open>False\<close>, leaves the stored key as it is
  and logs an error; with a non-empty key it stores the key and returns \<open>True\<close>, whatever
  the key is. \<open>start_algorithm\<close> without a stored key returns \<open>False\<close>, logs an error and
  leaves \<open>is_running\<close> as it is, so a manager that is not running stays so.
\<close>

theorem credential_checks:
  "snd (set_api_key [] m) = False
   \<and> api_key (fst (set_api_key [] m)) = api_key m
   \<and> log_entries (fst (set_api_key [] m)) = log_entries m @ [(ApiKeyEmpty, Red)]
   \<and> (key \<noteq> [] \<longrightarrow> snd (set_api_key key m) = True \<and> api_key (fst (set_api_key key m)) = key)
   \<and> (api_key m = [] \<longrightarrow>
        snd (start_algorithm m) = False
        \<and> is_running (fst (start_algorithm m)) = is_running m
        \<and> log_entries (fst (start_algorithm m)) = log_entries m @ [(CannotStart, Red)])
   \<and> (api_key m = [] \<and> \<not> is_running m \<longrightarrow> \<not> is_running (fst (start_algorithm m)))"
  by (simp add: set_api_key_def start_algorithm_def log_message_def)

theorem credential_checks_witness:
  "''k'' \<noteq> [] \<and> api_key (init_manager 0 1000) = [] \<and> \<not> is_running (init_manager 0 1000)
   \<and> snd (set_api_key ''k'' (init_manager 0 1000)) = True
   \<and> api_key (fst (set_api_key ''k'' (init_manager 0 1000))) = ''k''
   \<and> snd (start_algorithm (init_manager 0 1000)) = False
   \<and> \<not> is_running (fst (start_algorithm (init_manager 0 1000)))"
  using credential_checks [of "init_manager 0 1000" "''k''"]
  by (simp add: init_manager_def log_message_def Let_def)

text \<open>
  C6. A cycle whose race the peer check wins leaves block height, current difficulty and
  balance as they were; so does a run of the engine over any number of such cycles.
\<close>

theorem losses_leave_ledger:
  assumes "peer_first (race_wait (race env))"
    and "list_all (\<lambda>env. peer_first (race_wait (race env))) envs"
  shows "block_height (fst (node_of (cycle env s))) = block_height (fst s)
    \<and> current_difficulty (fst (node_of (cycle env s))) = current_difficulty (fst s)
    \<and> balance (fst (node_of (cycle env s))) = balance (fst s)
    \<and> block_height (fst (end_node (start_engine envs s))) = block_height (fst s)
    \<and> current_difficulty (fst (end_node (start_engine envs s))) = current_difficulty (fst s)
    \<and> balance (fst (end_node (start_engine envs s))) = balance (fst s)"
proof -
  have "ledger (fst (node_of (cycle env s))) = ledger (fst s)"
    by (rule ledger_cycle)
  moreover have "ledger (fst (end_node (start_engine envs s))) = ledger (fst s)"
    by (simp add: start_engine_def Let_def case_prod_beta)
  ultimately show ?thesis by (simp add: ledger_def)
qed

theorem losses_leave_ledger_witness:
  "peer_first (race_wait (race loss_env))
   \<and> list_all (\<lambda>env. peer_first (race_wait (race env))) [loss_env, loss_env]
   \<and> block_height (fst (end_node (start_engine [loss_env, loss_env] (init_manager 0 1000, hosted_engine)))) = 12345
   \<and> current_difficulty (fst (end_node (start_engine [loss_env, loss_env] (init_manager 0 1000, hosted_engine)))) = 0
   \<and> balance (fst (end_node (start_engine [loss_env, loss_env] (init_manager 0 1000, hosted_engine)))) = 0"
  using losses_leave_ledger [of loss_env "[loss_env, loss_env]" "(init_manager 0 1000, hosted_engine)"]
  by (simp add: loss_env_def init_manager_def log_message_def Let_def)

text \<open>
  C3 fails on the code. The local attempt finishes first and returns a proof, or both
  operations have finished when the wait returns: the finished Tasks are in the done set,
  the coroutine objects the race tests for are not, and the race announces nothing and
  returns \<open>None\<close>, which the loop takes as a failure. The claim asks for a win with the
  proof.
\<close>

theorem solve_first_is_no_win:
  "run_ai_competition 100 solve_first_race (init_manager 0 1000, running_engine) =
     ((init_manager 0 1000, running_engine\<lparr>awaits := [RaceWait 100]\<rparr>), PyNone)
   \<and> run_ai_competition 100 both_done_race (init_manager 0 1000, running_engine) =
     ((init_manager 0 1000, running_engine\<lparr>awaits := [RaceWait 100]\<rparr>), PyNone)
   \<and> block_height (fst (node_of (cycle solve_first_env (init_manager 0 1000, running_engine)))) =
       block_height (init_manager 0 1000)"
proof -
  have "run_ai_competition 100 solve_first_race (init_manager 0 1000, running_engine) =
     ((init_manager 0 1000, running_engine\<lparr>awaits := [RaceWait 100]\<rparr>), PyNone)"
    by (simp add: run_ai_competition_def solve_first_race_def running_engine_def
          hosted_engine_def Let_def)
  moreover have "run_ai_competition 100 both_done_race (init_manager 0 1000, running_engine) =
     ((init_manager 0 1000, running_engine\<lparr>awaits := [RaceWait 100]\<rparr>), PyNone)"
    by (simp add: run_ai_competition_def both_done_race_def running_engine_def
          hosted_engine_def Let_def)
  moreover have
    "ledger (fst (node_of (cycle solve_first_env (init_manager 0 1000, running_engine)))) =
       ledger (fst (init_manager 0 1000, running_engine))"
    by (rule ledger_cycle)
  ultimately show ?thesis by (simp add: ledger_def)
qed

text \<open>
  C10 fails on the code in one place, by the defect of C3: on a loss (only the peer check
  has finished) the race falls off its end and returns \<open>None\<close>, not the empty string, and
  does not announce the loss.
\<close>

theorem loss_returns_none:
  "peer_first (race_wait (race loss_env))
   \<and> run_ai_competition 100 (race loss_env) (init_manager 0 1000, running_engine) =
       ((init_manager 0 1000, running_engine\<lparr>awaits := [RaceWait 100]\<rparr>), PyNone)"
  by (simp add: run_ai_competition_def loss_env_def running_engine_def hosted_engine_def Let_def)

text \<open>
  The rest of the win gate holds. The local solve returns \<open>AI_Solution_Proof_\<close> followed
  by hex digits, a true value. The race returns the empty string when the wait is
  cancelled or raises. The loop calls \<open>distribute_reward\<close> exactly when what the race
  returned is true and \<open>running\<close> still holds; without \<open>running\<close> it leaves block height,
  current difficulty, balance and last block hash alone whatever the race returned, and
  \<open>running\<close> is false after a race during which \<open>stop_engine\<close> ran.
\<close>

theorem win_gate:
  "take 18 (snd (snd (solve_block_encryption d u bits m))) = ''AI_Solution_Proof_''
    \<and> truthy (PyStr (snd (snd (solve_block_encryption d u bits m))))
    \<and> (race_wait renv = WaitCancelled \<or> race_wait renv = WaitRaised msg \<longrightarrow>
          snd (run_ai_competition d renv s) = PyStr '''')
    \<and> (process_result wp d env (m, e) =
          distribute_reward (node_id m) d (luck env) (hash_bits env) m
        \<longleftrightarrow> truthy wp \<and> running e)
    \<and> (\<not> running e \<longrightarrow>
          block_height (fst (process_result wp d env (m, e))) = block_height m
          \<and> current_difficulty (fst (process_result wp d env (m, e))) = current_difficulty m
          \<and> balance (fst (process_result wp d env (m, e))) = balance m
          \<and> last_block_hash (fst (process_result wp d env (m, e))) = last_block_hash m)
    \<and> (CallsStopEngine \<in> set (race_during renv) \<longrightarrow>
          \<not> running (snd (fst (run_ai_competition d renv s))))"
proof -
  have a: "take 18 (snd (snd (solve_block_encryption d u bits m))) = ''AI_Solution_Proof_''"
    by (simp add: solve_proof)
  have b: "truthy (PyStr (snd (snd (solve_block_encryption d u bits m))))"
    by (simp add: solve_proof)
  have c: "race_wait renv = WaitCancelled \<or> race_wait renv = WaitRaised msg \<longrightarrow>
          snd (run_ai_competition d renv s) = PyStr ''''"
    by (auto simp: race_cancelled_eq race_raised_eq)
  have d: "process_result wp d env (m, e) =
          distribute_reward (node_id m) d (luck env) (hash_bits env) m
        \<longleftrightarrow> truthy wp \<and> running e"
  proof (cases "truthy wp \<and> running e")
    case True
    then show ?thesis by (simp add: process_result_def)
  next
    case False
    have "ledger (fst (process_result wp d env (m, e))) = ledger m"
      using False by (simp add: process_result_no_win)
    moreover have
      "ledger (fst (distribute_reward (node_id m) d (luck env) (hash_bits env) m)) \<noteq> ledger m"
      unfolding ledger_distribute_reward by (simp add: ledger_def)
    ultimately show ?thesis using False by auto
  qed
  have "ledger (fst (process_result wp d env (m, e))) = ledger m" if "\<not> running e"
    using that by (simp add: process_result_no_win)
  then have f: "\<not> running e \<longrightarrow>
          block_height (fst (process_result wp d env (m, e))) = block_height m
          \<and> current_difficulty (fst (process_result wp d env (m, e))) = current_difficulty m
          \<and> balance (fst (process_result wp d env (m, e))) = balance m
          \<and> last_block_hash (fst (process_result wp d env (m, e))) = last_block_hash m"
    by (simp add: ledger_def)
  have g: "CallsStopEngine \<in> set (race_during renv) \<longrightarrow>
          \<not> running (snd (fst (run_ai_competition d renv s)))"
    by (simp add: race_stopped)
  from a b c d f g show ?thesis by blast
qed

text \<open>
  C4, as the code has it. The race hands both competing operations together to one wait
  for the first completion, and that wait is its only suspension point. When the wait
  returns, the race returns at once with the node as the wait left it: it requests no
  cancellation, so an operation that is still running and whose cancellation was not
  requested before is left running, and the race waits for none. No later step of the
  cycle and no run of the engine requests one either. Here \<open>t\<close> is the node before the
  race and \<open>r\<close> what the race returns.
\<close>

theorem race_requests_no_cancellation:
  fixes difficulty :: real and renv :: race_env and t :: node
    and env :: cycle_env and envs :: "cycle_env list" and s :: node
  defines "r \<equiv> run_ai_competition difficulty renv t"
  shows "awaits (snd (fst r)) = awaits (snd t) @ [RaceWait difficulty]
    \<and> cancel_requests (snd (fst r)) = cancel_requests (snd t)
    \<and> (race_wait renv = WaitReturned finished \<longrightarrow>
          r = (concurrently (race_during renv)
                 (fst t, (snd t)\<lparr>awaits := awaits (snd t) @ [RaceWait difficulty]\<rparr>),
               PyNone)
        \<and> (\<forall>c \<in> set (still_running finished).
              c \<notin> set (cancel_requests (snd t)) \<longrightarrow> c \<notin> set (cancel_requests (snd (fst r)))))
    \<and> cancel_requests (snd (node_of (cycle env s))) = cancel_requests (snd s)
    \<and> cancel_requests (snd (end_node (start_engine envs s))) = cancel_requests (snd s)"
proof -
  have a: "awaits (snd (fst r)) = awaits (snd t) @ [RaceWait difficulty]"
    unfolding r_def by (rule awaits_run_ai_competition)
  have b: "cancel_requests (snd (fst r)) = cancel_requests (snd t)"
    unfolding r_def by (rule cancel_requests_run_ai_competition)
  have c: "r = (concurrently (race_during renv)
                 (fst t, (snd t)\<lparr>awaits := awaits (snd t) @ [RaceWait difficulty]\<rparr>),
               PyNone)"
    if "race_wait renv = WaitReturned finished"
    unfolding r_def using that by (rule race_returned_eq)
  have d: "cancel_requests (snd (node_of (cycle env s))) = cancel_requests (snd s)"
    by (rule cancel_requests_cycle)
  have e: "cancel_requests (snd (end_node (start_engine envs s))) = cancel_requests (snd s)"
    by (rule cancel_requests_start_engine)
  from a b c d e show ?thesis by simp
qed

theorem race_requests_no_cancellation_witness:
  "race_wait (race loss_env) = WaitReturned [(P2PCoro, Returned (PyBool True))]
   \<and> SolveCoro \<in> set (still_running [(P2PCoro, Returned (PyBool True))])
   \<and> SolveCoro \<notin> set (cancel_requests (snd (init_manager 0 1000, running_engine)))
   \<and> SolveCoro \<notin> set (cancel_requests (snd (fst
          (run_ai_competition 100 (race loss_env) (init_manager 0 1000, running_engine)))))
   \<and> awaits (snd (fst (run_ai_competition 100 (race loss_env)
          (init_manager 0 1000, running_engine)))) = [RaceWait 100]
   \<and> cancel_requests (snd (end_node (start_engine [loss_env, loss_env]
          (init_manager 0 1000, hosted_engine)))) = []"
proof -
  have h: "race_wait (race loss_env) = WaitReturned [(P2PCoro, Returned (PyBool True))]"
    "SolveCoro \<in> set (still_running [(P2PCoro, Returned (PyBool True))])"
    "SolveCoro \<notin> set (cancel_requests (snd (init_manager 0 1000, running_engine)))"
    "awaits (snd (init_manager 0 1000, running_engine)) = []"
    "cancel_requests (snd (init_manager 0 1000, hosted_engine)) = []"
    by (simp_all add: loss_env_def still_running_def running_engine_def hosted_engine_def)
  note th = race_requests_no_cancellation
              [where renv = "race loss_env" and t = "(init_manager 0 1000, running_engine)"
                 and difficulty = 100 and finished = "[(P2PCoro, Returned (PyBool True))]"
                 and env = loss_env and s = "(init_manager 0 1000, hosted_engine)"
                 and envs = "[loss_env, loss_env]"]
  from th h(1,2,3) have a:
    "SolveCoro \<notin> set (cancel_requests (snd (fst
          (run_ai_competition 100 (race loss_env) (init_manager 0 1000, running_engine)))))"
    by blast
  from th have b:
    "awaits (snd (fst (run_ai_competition 100 (race loss_env)
          (init_manager 0 1000, running_engine)))) =
       awaits (snd (init_manager 0 1000, running_engine)) @ [RaceWait 100]"
    by blast
  from th have c:
    "cancel_requests (snd (end_node (start_engine [loss_env, loss_env]
          (init_manager 0 1000, hosted_engine)))) =
       cancel_requests (snd (init_manager 0 1000, hosted_engine))"
    by blast
  show ?thesis
    using a b c h by (simp del: run_cycles.simps)
qed

text \<open>
  C4 as stated fails: the peer check finishes first and the local attempt is still running
  when the wait returns; no cancellation of the local attempt is requested, by the race or
  by the rest of the cycle.
\<close>

theorem loser_not_cancelled_counterexample:
  "race_wait (race loss_env) = WaitReturned [(P2PCoro, Returned (PyBool True))]
   \<and> still_running [(P2PCoro, Returned (PyBool True))] = [SolveCoro]
   \<and> cancel_requests (snd (fst
        (run_ai_competition 100 (race loss_env) (init_manager 0 1000, running_engine)))) = []
   \<and> cancel_requests (snd (node_of
        (cycle loss_env (init_manager 0 1000, running_engine)))) = []"
  by (simp add: cycle_def cycle_begin_def run_ai_competition_def
        process_result_def await_next_block_def calculate_dynamic_difficulty_def
        update_peer_count_def BASE_DIFFICULTY_def BLOCK_TIME_SECONDS_def
        init_manager_def log_message_def loss_env_def still_running_def
        running_engine_def hosted_engine_def Let_def)

text \<open>
  C5, as the code has it. When the wait of the race is cancelled, the race announces the
  cancellation and returns the empty string; the loop allocates no reward, announces that
  solving failed or the engine stopped, announces the wait for the next block and enters
  the inter-block sleep. The loop ends after that sleep: with the \<open>CancelledError\<close> if
  the sleep is cancelled too, and otherwise at its head if \<open>running\<close> is false, as it is
  when \<open>stop_engine\<close> ran during the race; it starts no further cycle then. Here \<open>s1\<close> is
  the node as the wait leaves it and \<open>s'\<close> the node after the cycle.
\<close>

theorem cancelled_race_still_sleeps:
  fixes env :: cycle_env and s :: node
  assumes "race_wait (race env) = WaitCancelled"
  defines "difficulty \<equiv> fst (cycle_begin env (fst s))"
  defines "s1 \<equiv> concurrently (race_during (race env))
                   (snd (cycle_begin env (fst s)),
                    (snd s)\<lparr>awaits := awaits (snd s) @ [RaceWait difficulty]\<rparr>)"
  defines "s' \<equiv> node_of (cycle env s)"
  shows "cycle env s =
           await_next_block env
             (log_message SolvingFailed Red (log_message CompetitionCancelled Red (fst s1)),
              snd s1)
    \<and> awaits (snd s') = awaits (snd s) @ [RaceWait difficulty, BlockSleep BLOCK_TIME_SECONDS]
    \<and> block_height (fst s') = block_height (fst s)
    \<and> current_difficulty (fst s') = current_difficulty (fst s)
    \<and> balance (fst s') = balance (fst s)
    \<and> (running (snd s) \<longrightarrow>
          run_cycles (env # rest) s =
            (if sleep_cancelled env then TaskEnded CancelledError s' else run_cycles rest s'))
    \<and> (running (snd s) \<and> CallsStopEngine \<in> set (race_during (race env)) \<longrightarrow>
          run_cycles (env # rest) s =
            (if sleep_cancelled env then TaskEnded CancelledError s' else LoopExited s'))"
proof -
  let ?r = "run_ai_competition difficulty (race env) (snd (cycle_begin env (fst s)), snd s)"
  have r: "?r = ((log_message CompetitionCancelled Red (fst s1), snd s1), PyStr '''')"
    unfolding s1_def using race_cancelled_eq[OF assms(1)] by simp
  have c: "cycle env s =
           await_next_block env
             (log_message SolvingFailed Red (log_message CompetitionCancelled Red (fst s1)),
              snd s1)"
    using cycle_fails[of env s] r unfolding difficulty_def by simp
  have a: "awaits (snd s') = awaits (snd s) @ [RaceWait difficulty, BlockSleep BLOCK_TIME_SECONDS]"
    unfolding s'_def c by (simp add: awaits_await_next_block s1_def)
  have l: "ledger (fst s') = ledger (fst s)"
    unfolding s'_def by (rule ledger_cycle)
  have loop: "run_cycles (env # rest) s =
            (if sleep_cancelled env then TaskEnded CancelledError s' else run_cycles rest s')"
    if "running (snd s)"
    unfolding s'_def using that by (rule run_cycles_step)
  have stopped: "\<not> running (snd s')" if "CallsStopEngine \<in> set (race_during (race env))"
  proof -
    have "\<not> running (snd s1)"
      unfolding s1_def using that by (rule stopped_concurrently)
    then show ?thesis unfolding s'_def c by (simp add: running_await_next_block)
  qed
  have exit: "run_cycles rest s' = LoopExited s'"
    if "CallsStopEngine \<in> set (race_during (race env))"
    using stopped[OF that] by (cases rest) simp_all
  from c a l loop exit show ?thesis
    by (simp add: ledger_def)
qed

theorem cancelled_race_still_sleeps_witness:
  "race_wait (race stop_env) = WaitCancelled
   \<and> running (snd (init_manager 0 1000, running_engine))
   \<and> CallsStopEngine \<in> set (race_during (race stop_env))
   \<and> \<not> sleep_cancelled stop_env
   \<and> awaits (snd (node_of (cycle stop_env (init_manager 0 1000, running_engine)))) =
        [RaceWait 100, BlockSleep 5]
   \<and> block_height (fst (node_of (cycle stop_env (init_manager 0 1000, running_engine)))) = 12345
   \<and> run_cycles [stop_env, loss_env] (init_manager 0 1000, running_engine) =
        LoopExited (node_of (cycle stop_env (init_manager 0 1000, running_engine)))"
proof -
  have h: "race_wait (race stop_env) = WaitCancelled"
    "running (snd (init_manager 0 1000, running_engine))"
    "CallsStopEngine \<in> set (race_during (race stop_env))"
    "\<not> sleep_cancelled stop_env"
    "awaits (snd (init_manager 0 1000, running_engine)) = []"
    "block_height (init_manager 0 1000) = 12345"
    by (simp_all add: stop_env_def stopped_race_def running_engine_def hosted_engine_def
          init_manager_def log_message_def Let_def)
  note th = cancelled_race_still_sleeps
              [where env = stop_env and s = "(init_manager 0 1000, running_engine)"
                 and rest = "[loss_env]", OF h(1)]
  from th have a:
    "awaits (snd (node_of (cycle stop_env (init_manager 0 1000, running_engine)))) =
       awaits (snd (init_manager 0 1000, running_engine)) @
       [RaceWait (fst (cycle_begin stop_env (fst (init_manager 0 1000, running_engine)))),
        BlockSleep BLOCK_TIME_SECONDS]"
    by blast
  from th have b:
    "block_height (fst (node_of (cycle stop_env (init_manager 0 1000, running_engine)))) =
       block_height (fst (init_manager 0 1000, running_engine))"
    by blast
  from th h(2,3) have c:
    "run_cycles (stop_env # [loss_env]) (init_manager 0 1000, running_engine) =
       (if sleep_cancelled stop_env
        then TaskEnded CancelledError (node_of (cycle stop_env (init_manager 0 1000, running_engine)))
        else LoopExited (node_of (cycle stop_env (init_manager 0 1000, running_engine))))"
    by blast
  show ?thesis
    using a b c h stop_env_difficulty
    by (simp add: BLOCK_TIME_SECONDS_def del: run_cycles.simps)
qed

text \<open>
  C5 as stated fails: the engine is stopped during the race of the first cycle, the wait is
  cancelled, and the loop still announces the wait and reaches the inter-block sleep before
  it exits.
\<close>

theorem aborted_cycle_sleeps_counterexample:
  "race_wait (race stop_env) = WaitCancelled
   \<and> awaits (snd (end_node (start_engine [stop_env] (init_manager 0 1000, hosted_engine)))) =
        [RaceWait 100, BlockSleep 5]
   \<and> log_entries (fst (end_node (start_engine [stop_env] (init_manager 0 1000, hosted_engine)))) =
        [(NodeInitialized ''AIAlgoNode-1000'', Teal), (EngineStarted, Teal),
         (CycleStart 12346, Gold), (DifficultySet 100, Gold),
         (StopCommand, Red), (CompetitionCancelled, Red),
         (SolvingFailed, Red), (CycleComplete 5, Gold)]"
  by (simp add: start_engine_def cycle_def cycle_begin_def run_ai_competition_def
        process_result_def await_next_block_def calculate_dynamic_difficulty_def
        update_peer_count_def BASE_DIFFICULTY_def BLOCK_TIME_SECONDS_def
        init_manager_def log_message_def stop_env_def stopped_race_def hosted_engine_def
        py_str_def radix.simps lower_digit_def Let_def)

text \<open>
  C8, as the code has it. An exception raised by the wait itself is caught by the race,
  logged as a critical competition error and turned into the empty string, a loss. An
  exception raised inside a competing operation stays in that operation's Task: the wait
  returns, and the race neither re-raises nor logs the exception of the peer check. In all
  these cases the race returns a false value, the cycle allocates no reward and goes on to
  the inter-block sleep, and the loop goes on with the next cycle unless that sleep is
  cancelled. Here \<open>s1\<close> is the node as the wait leaves it and \<open>s'\<close> the node after the
  cycle.
\<close>

theorem race_errors_become_losses:
  fixes difficulty :: real and renv :: race_env and s0 :: node
    and env :: cycle_env and s :: node
  defines "s1 \<equiv> concurrently (race_during renv)
                   (fst s0, (snd s0)\<lparr>awaits := awaits (snd s0) @ [RaceWait difficulty]\<rparr>)"
  defines "r \<equiv> run_ai_competition (fst (cycle_begin env (fst s))) (race env)
                  (snd (cycle_begin env (fst s)), snd s)"
  defines "s' \<equiv> node_of (cycle env s)"
  shows "(race_wait renv = WaitRaised msg \<longrightarrow>
            run_ai_competition difficulty renv s0 =
              ((log_message (CompetitionError msg) Red (fst s1), snd s1), PyStr ''''))
    \<and> (race_wait renv = WaitReturned finished \<and> (P2PCoro, Raised (Exception msg)) \<in> set finished \<longrightarrow>
            (CompetitionError msg, Red) \<notin>
               set (drop (length (log_entries (fst s1)))
                      (log_entries (fst (fst (run_ai_competition difficulty renv s0))))))
    \<and> (internal_error (race_wait (race env)) \<longrightarrow>
            \<not> truthy (snd r)
          \<and> cycle env s =
              await_next_block env (log_message SolvingFailed Red (fst (fst r)), snd (fst r))
          \<and> block_height (fst s') = block_height (fst s)
          \<and> current_difficulty (fst s') = current_difficulty (fst s)
          \<and> balance (fst s') = balance (fst s))
    \<and> (internal_error (race_wait (race env)) \<and> running (snd s) \<longrightarrow>
            run_cycles (env # rest) s =
              (if sleep_cancelled env then TaskEnded CancelledError s' else run_cycles rest s'))"
proof -
  have a: "race_wait renv = WaitRaised msg \<longrightarrow>
            run_ai_competition difficulty renv s0 =
              ((log_message (CompetitionError msg) Red (fst s1), snd s1), PyStr '''')"
    unfolding s1_def by (simp add: race_raised_eq)
  have b: "race_wait renv = WaitReturned finished \<and> (P2PCoro, Raised (Exception msg)) \<in> set finished \<longrightarrow>
            (CompetitionError msg, Red) \<notin>
               set (drop (length (log_entries (fst s1)))
                      (log_entries (fst (fst (run_ai_competition difficulty renv s0)))))"
    unfolding s1_def by (simp add: race_returned_eq)
  have c: "\<not> truthy (snd r)"
    unfolding r_def by (rule race_never_true)
  have cy: "cycle env s =
        await_next_block env (log_message SolvingFailed Red (fst (fst r)), snd (fst r))"
    unfolding r_def by (rule cycle_fails)
  have l: "ledger (fst s') = ledger (fst s)"
    unfolding s'_def by (rule ledger_cycle)
  have loop: "run_cycles (env # rest) s =
        (if sleep_cancelled env then TaskEnded CancelledError s' else run_cycles rest s')"
    if "running (snd s)"
    unfolding s'_def using that by (rule run_cycles_step)
  from a b c cy l loop show ?thesis
    by (simp add: ledger_def)
qed

theorem race_errors_become_losses_witness:
  "race_wait wait_error_race =
     WaitRaised ''Passing coroutines is forbidden, use tasks explicitly.''
   \<and> race_wait peer_error_race = WaitReturned [(P2PCoro, Raised (Exception ''boom''))]
   \<and> (P2PCoro, Raised (Exception ''boom'')) \<in> set [(P2PCoro, Raised (Exception ''boom''))]
   \<and> internal_error (race_wait (race wait_error_env))
   \<and> running (snd (init_manager 0 1000, running_engine))
   \<and> \<not> sleep_cancelled wait_error_env
   \<and> snd (run_ai_competition 100 wait_error_race (init_manager 0 1000, running_engine)) = PyStr ''''
   \<and> last (log_entries (fst (fst (run_ai_competition 100 wait_error_race
              (init_manager 0 1000, running_engine))))) =
        (CompetitionError ''Passing coroutines is forbidden, use tasks explicitly.'', Red)
   \<and> block_height (fst (node_of (cycle wait_error_env (init_manager 0 1000, running_engine)))) = 12345
   \<and> run_cycles [wait_error_env, loss_env] (init_manager 0 1000, running_engine) =
        run_cycles [loss_env] (node_of (cycle wait_error_env (init_manager 0 1000, running_engine)))"
proof -
  have h: "race_wait wait_error_race =
       WaitRaised ''Passing coroutines is forbidden, use tasks explicitly.''"
    "race_wait peer_error_race = WaitReturned [(P2PCoro, Raised (Exception ''boom''))]"
    "internal_error (race_wait (race wait_error_env))"
    "running (snd (init_manager 0 1000, running_engine))"
    "\<not> sleep_cancelled wait_error_env"
    "block_height (fst (init_manager 0 1000, running_engine)) = 12345"
    by (simp_all add: wait_error_env_def wait_error_race_def peer_error_race_def loss_env_def
          running_engine_def hosted_engine_def init_manager_def log_message_def Let_def)
  note th = race_errors_become_losses
              [where renv = wait_error_race and s0 = "(init_manager 0 1000, running_engine)"
                 and difficulty = 100
                 and msg = "''Passing coroutines is forbidden, use tasks explicitly.''"
                 and env = wait_error_env and s = "(init_manager 0 1000, running_engine)"
                 and rest = "[loss_env]"]
  from th h(1) have a:
    "run_ai_competition 100 wait_error_race (init_manager 0 1000, running_engine) =
       ((log_message
           (CompetitionError ''Passing coroutines is forbidden, use tasks explicitly.'') Red
           (fst (concurrently (race_during wait_error_race)
                   (fst (init_manager 0 1000, running_engine),
                    (snd (init_manager 0 1000, running_engine))
                      \<lparr>awaits := awaits (snd (init_manager 0 1000, running_engine))
                                   @ [RaceWait 100]\<rparr>))),
         snd (concurrently (race_during wait_error_race)
                (fst (init_manager 0 1000, running_engine),
                 (snd (init_manager 0 1000, running_engine))
                   \<lparr>awaits := awaits (snd (init_manager 0 1000, running_engine))
                                @ [RaceWait 100]\<rparr>))),
        PyStr '''')"
    by blast
  from th h(3) have b:
    "block_height (fst (node_of (cycle wait_error_env (init_manager 0 1000, running_engine)))) =
       block_height (fst (init_manager 0 1000, running_engine))"
    by blast
  from th h(3,4) have c:
    "run_cycles (wait_error_env # [loss_env]) (init_manager 0 1000, running_engine) =
       (if sleep_cancelled wait_error_env
        then TaskEnded CancelledError
               (node_of (cycle wait_error_env (init_manager 0 1000, running_engine)))
        else run_cycles [loss_env]
               (node_of (cycle wait_error_env (init_manager 0 1000, running_engine))))"
    by blast
  have d: "snd (run_ai_competition 100 wait_error_race (init_manager 0 1000, running_engine)) = PyStr ''''"
    "last (log_entries (fst (fst (run_ai_competition 100 wait_error_race
              (init_manager 0 1000, running_engine))))) =
        (CompetitionError ''Passing coroutines is forbidden, use tasks explicitly.'', Red)"
    unfolding a by (simp_all add: log_message_def)
  show ?thesis
    using b c d h by (simp del: run_cycles.simps)
qed

text \<open>
  C8 as stated fails: the peer check raises while the local attempt is pending; the wait
  returns, the race returns a false value, and no error is logged.
\<close>

theorem peer_error_not_logged_counterexample:
  "race_wait peer_error_race = WaitReturned [(P2PCoro, Raised (Exception ''boom''))]
   \<and> \<not> truthy (snd (run_ai_competition 100 peer_error_race (init_manager 0 1000, running_engine)))
   \<and> log_entries (fst (fst (run_ai_competition 100 peer_error_race
          (init_manager 0 1000, running_engine)))) =
        [(NodeInitialized ''AIAlgoNode-1000'', Teal)]"
  by (simp add: run_ai_competition_def peer_error_race_def running_engine_def hosted_engine_def
        init_manager_def log_message_def py_str_def radix.simps lower_digit_def Let_def)

end
